theory Spec2Isabelle
  imports Complex_Main
begin

section \<open>Mission simulation engine of the 3I/ATLAS mission planner\<close>

text \<open>
  The development embeds the algorithmic core of \<^verbatim>\<open>src/App.tsx\<close>: the outcome estimator
  \<^verbatim>\<open>simulateMission\<close> with its offline fallback, \<^verbatim>\<open>resetMission\<close>, the position model
  \<^verbatim>\<open>getTimeBasedPositions\<close> and the curve generator \<^verbatim>\<open>getTrajectoryPoints\<close>.

  JavaScript numbers are modelled as exact reals: IEEE-754 rounding is not part of the
  model, so every numeric statement below is one of real arithmetic. A double may differ
  from the real in its last bit (\<^verbatim>\<open>12 * 0.8\<close> is \<^verbatim>\<open>9.600000000000001\<close>), which can decide a
  comparison at an exact boundary (\<^verbatim>\<open>0.8 - 0.1 > 0.7\<close> holds for doubles and not for reals).
  Where the source can produce \<^verbatim>\<open>NaN\<close> from an invalid date this is modelled explicitly
  (type \<open>jsnum\<close>).
\<close>

subsection \<open>Data model\<close>

text \<open>The string-literal unions \<^verbatim>\<open>'chemical' | 'ion' | 'solar-sail'\<close> and
  \<^verbatim>\<open>'small' | 'medium' | 'large'\<close>.\<close>

datatype propulsion = Chemical | Ion | SolarSail

datatype payload = Small | Medium | Large

fun propulsion_str :: "propulsion \<Rightarrow> string" where
  "propulsion_str Chemical = ''chemical''"
| "propulsion_str Ion = ''ion''"
| "propulsion_str SolarSail = ''solar-sail''"

fun payload_str :: "payload \<Rightarrow> string" where
  "payload_str Small = ''small''"
| "payload_str Medium = ''medium''"
| "payload_str Large = ''large''"

text \<open>\<^verbatim>\<open>interface UIMissionParameters\<close> and \<^verbatim>\<open>interface UIMissionResults\<close> (App.tsx).\<close>

record UIMissionParameters =
  launchDate :: string
  propulsionType :: propulsion
  payloadSize :: payload

record UIMissionResults =
  travelTime :: real
  deltaV :: real
  successProbability :: real
  missionLog :: "string list"
  fuelCost :: real
  missionStatus :: string

text \<open>\<^verbatim>\<open>interface MissionParameters\<close> and \<^verbatim>\<open>interface MissionResults\<close> (services/api).\<close>

record MissionParameters =
  launch_date :: string
  propulsion_type :: propulsion
  payload_size :: payload

record MissionResults =
  travel_time :: real
  delta_v :: real
  success_probability :: real
  mission_log :: "string list"
  fuel_cost :: real
  mission_status :: string

subsection \<open>Number formatting\<close>

text \<open>Decimal digits of a natural number, most significant first.\<close>

fun digits :: "nat \<Rightarrow> string" where
  "digits n =
     (if n < 10 then [char_of (48 + n)]
      else digits (n div 10) @ [char_of (48 + n mod 10)])"

text \<open>
  \<^verbatim>\<open>Number.prototype.toFixed(f)\<close> on an exact real of magnitude below \<open>10^21\<close> (the only
  range the estimator reaches): the integer \<open>n\<close> nearest to \<open>x * 10^f\<close>, the larger one
  on a tie, printed with \<open>f\<close> digits after the point.
\<close>

definition toFixed :: "nat \<Rightarrow> real \<Rightarrow> string" where
  "toFixed f x =
     (let s = (if x < 0 then ''-'' else '''');
          a = \<bar>x\<bar>;
          n = nat \<lfloor>a * 10 ^ f + 1 / 2\<rfloor>;
          m = digits n;
          m = (if f \<noteq> 0 \<and> length m \<le> f then replicate (f + 1 - length m) (CHR ''0'') @ m else m);
          k = length m
      in if f = 0 then s @ m else s @ take (k - f) m @ ''.'' @ drop (k - f) m)"

subsection \<open>The offline fallback of \<^verbatim>\<open>simulateMission\<close>\<close>

text \<open>
  The two \<^verbatim>\<open>switch\<close> statements of the \<^verbatim>\<open>catch\<close> block. The three variables start at
  \<open>(1, 1, 0.7)\<close>; the first switch assigns them by propulsion type, the second scales and
  shifts them by payload size (\<^verbatim>\<open>'medium'\<close> has no case and leaves them as they are).
  The result is \<open>(deltaVMultiplier, timeMultiplier, successBase)\<close>.
\<close>

definition fallbackMultipliers :: "UIMissionParameters \<Rightarrow> real \<times> real \<times> real" where
  "fallbackMultipliers parameters =
     (let (deltaVMultiplier, timeMultiplier, successBase) = (1 :: real, 1 :: real, 0.7 :: real);
          (deltaVMultiplier, timeMultiplier, successBase) =
            (case propulsionType parameters of
               Chemical \<Rightarrow> (1.2, 0.8, 0.6)
             | Ion \<Rightarrow> (0.8, 1.2, 0.8)
             | SolarSail \<Rightarrow> (0.3, 2.0, 0.5))
      in (case payloadSize parameters of
            Small \<Rightarrow> (deltaVMultiplier * 0.9, timeMultiplier * 0.9, successBase + 0.1)
          | Medium \<Rightarrow> (deltaVMultiplier, timeMultiplier, successBase)
          | Large \<Rightarrow> (deltaVMultiplier * 1.3, timeMultiplier * 1.3, successBase - 0.1)))"

text \<open>The first log line starts with U+26A0 U+FE0F and the third contains U+0394; both are
  written as their UTF-8 bytes.\<close>

definition offlineNotice :: string where
  "offlineNotice =
     [CHR 0xE2, CHR 0x9A, CHR 0xA0, CHR 0xEF, CHR 0xB8, CHR 0x8F] @ '' Offline mode - API unavailable''"

definition deltaSign :: string where
  "deltaSign = [CHR 0xCE, CHR 0x94]"

text \<open>The rest of the \<^verbatim>\<open>catch\<close> block: the final values and the result object.\<close>

definition fallbackResults :: "UIMissionParameters \<Rightarrow> UIMissionResults" where
  "fallbackResults parameters =
     (let baseDeltaV = 15;
          baseTravelTime = 5;
          (deltaVMultiplier, timeMultiplier, successBase) = fallbackMultipliers parameters;
          finalDeltaV = baseDeltaV * deltaVMultiplier;
          finalTravelTime = baseTravelTime * timeMultiplier;
          finalSuccess = max 0.1 (min 0.95 successBase)
      in \<lparr> travelTime = finalTravelTime,
           deltaV = finalDeltaV,
           successProbability = finalSuccess,
           missionLog =
             [ offlineNotice,
               ''Mission parameters: '' @ propulsion_str (propulsionType parameters)
                 @ '' propulsion, '' @ payload_str (payloadSize parameters) @ '' payload'',
               ''Calculated '' @ deltaSign @ ''V requirement: '' @ toFixed 1 finalDeltaV @ '' km/s'',
               ''Estimated travel time: '' @ toFixed 1 finalTravelTime @ '' years'',
               ''Mission success probability: '' @ toFixed 0 (finalSuccess * 100) @ ''%'' ],
           fuelCost = finalDeltaV * 0.8,
           missionStatus = (if finalSuccess > 0.7 then ''success'' else ''warning'') \<rparr>)"

subsection \<open>Application state, \<^verbatim>\<open>simulateMission\<close> and \<^verbatim>\<open>resetMission\<close>\<close>

text \<open>The five \<^verbatim>\<open>useState\<close> cells of \<^verbatim>\<open>App\<close>; \<^verbatim>\<open>apiError\<close> is \<^verbatim>\<open>string | null\<close>.\<close>

record AppState =
  parameters :: UIMissionParameters
  results :: UIMissionResults
  isSimulating :: bool
  isAnimating :: bool
  apiError :: "string option"

definition App_init :: AppState where
  "App_init =
     \<lparr> parameters = \<lparr> launchDate = ''2025-10-30T10:00'', propulsionType = Ion, payloadSize = Medium \<rparr>,
       results = \<lparr> travelTime = 0, deltaV = 0, successProbability = 0, missionLog = [],
                   fuelCost = 0, missionStatus = ''pending'' \<rparr>,
       isSimulating = False,
       isAnimating = False,
       apiError = None \<rparr>"

text \<open>
  What \<^verbatim>\<open>await missionAPI.simulate(apiParams)\<close> hands to the \<^verbatim>\<open>try\<close> block: the response
  body (\<open>Inr\<close>), or an exception (\<open>Inl\<close>): the promise was rejected by a timeout, a network
  error or a status outside 2xx, or the body was missing and reading its first field
  threw. The \<^verbatim>\<open>catch\<close> block never inspects the exception.
\<close>

datatype failure = Timeout | NetworkError | BadStatus nat | BadBody

type_synonym reply = "failure + MissionResults"

text \<open>
  \<^verbatim>\<open>simulateMission\<close> is an \<^verbatim>\<open>async\<close> function with one suspension point. Up to the
  \<^verbatim>\<open>await\<close> it runs synchronously: three setters, then the request is built from the
  \<^verbatim>\<open>parameters\<close> of the render that created the closure and posted.
\<close>

definition simulateMission_begin :: "AppState \<Rightarrow> AppState \<times> MissionParameters" where
  "simulateMission_begin s =
     (let s = s\<lparr>isSimulating := True\<rparr>;
          s = s\<lparr>isAnimating := False\<rparr>;
          s = s\<lparr>apiError := None\<rparr>;
          apiParams = \<lparr> launch_date = launchDate (parameters s),
                        propulsion_type = propulsionType (parameters s),
                        payload_size = payloadSize (parameters s) \<rparr>
      in (s, apiParams))"

text \<open>
  The blocks after the \<^verbatim>\<open>await\<close> return the exception they throw, if any, with the
  state they leave. The \<^verbatim>\<open>try\<close> block rethrows a rejection and otherwise converts the
  response field by field.
\<close>

definition simulateMission_try :: "reply \<Rightarrow> AppState \<Rightarrow> failure option \<times> AppState" where
  "simulateMission_try reply s =
     (case reply of
        Inl error \<Rightarrow> (Some error, s)
      | Inr apiResults \<Rightarrow>
          (let newResults = \<lparr> travelTime = travel_time apiResults,
                               deltaV = delta_v apiResults,
                               successProbability = success_probability apiResults,
                               missionLog = mission_log apiResults,
                               fuelCost = fuel_cost apiResults,
                               missionStatus = mission_status apiResults \<rparr>;
               s = s\<lparr>results := newResults\<rparr>;
               s = s\<lparr>isAnimating := True\<rparr>
           in (None, s)))"

text \<open>The \<^verbatim>\<open>catch\<close> block (its \<^verbatim>\<open>console.error\<close> is not part of the state);
  \<open>captured_parameters\<close> is the \<^verbatim>\<open>parameters\<close> of the closure, not the current state cell.\<close>

definition simulateMission_catch ::
  "UIMissionParameters \<Rightarrow> failure \<Rightarrow> AppState \<Rightarrow> failure option \<times> AppState" where
  "simulateMission_catch captured_parameters error s =
     (let s = s\<lparr>apiError := Some ''Failed to connect to simulation API. Using offline mode...''\<rparr>;
          newResults = fallbackResults captured_parameters;
          s = s\<lparr>results := newResults\<rparr>;
          s = s\<lparr>isAnimating := True\<rparr>
      in (None, s))"

text \<open>\<^verbatim>\<open>try / catch / finally\<close>: the \<^verbatim>\<open>finally\<close> block runs on every path and an
  exception that the \<^verbatim>\<open>catch\<close> block did not absorb is still pending after it.\<close>

definition simulateMission_resume ::
  "UIMissionParameters \<Rightarrow> reply \<Rightarrow> AppState \<Rightarrow> failure option \<times> AppState" where
  "simulateMission_resume captured_parameters reply s =
     (let (thrown, s) = simulateMission_try reply s;
          (thrown, s) = (case thrown of
                           Some error \<Rightarrow> simulateMission_catch captured_parameters error s
                         | None \<Rightarrow> (None, s));
          s = s\<lparr>isSimulating := False\<rparr>
      in (thrown, s))"

text \<open>One whole call with nothing else happening while it is suspended.\<close>

definition simulateMission :: "reply \<Rightarrow> AppState \<Rightarrow> failure option \<times> AppState" where
  "simulateMission reply s =
     (let (s', apiParams) = simulateMission_begin s
      in simulateMission_resume (parameters s) reply s')"

definition resetMission :: "AppState \<Rightarrow> AppState" where
  "resetMission s =
     (let s = s\<lparr>results := \<lparr> travelTime = 0, deltaV = 0, successProbability = 0, missionLog = [],
                              fuelCost = 0, missionStatus = ''pending'' \<rparr>\<rparr>;
          s = s\<lparr>isAnimating := False\<rparr>;
          s = s\<lparr>apiError := None\<rparr>
      in s)"

text \<open>The ranges the data model gives a mission outcome.\<close>

definition outcomeInRange :: "UIMissionResults \<Rightarrow> bool" where
  "outcomeInRange r =
     (0 \<le> successProbability r \<and> successProbability r \<le> 1 \<and> 0 \<le> deltaV r
      \<and> 0 \<le> travelTime r \<and> 0 \<le> fuelCost r)"

subsection \<open>The run lifecycle\<close>

text \<open>
  The application as a transition system over the events that reach it. A run that is
  suspended at its \<^verbatim>\<open>await\<close> is kept with the parameters its closure captured and the
  request it posted; \<open>requests\<close> counts the posts and \<open>outcomes\<close> the outcomes stored by
  settling runs.
\<close>

record Run =
  captured :: UIMissionParameters
  request :: MissionParameters

record World =
  ui :: AppState
  pending :: "Run list"
  requests :: nat
  outcomes :: nat

datatype event =
    ClickSimulate
  | ClickReset
  | ChangeParameters UIMissionParameters
  | Reply nat reply

definition World_init :: World where
  "World_init = \<lparr> ui = App_init, pending = [], requests = 0, outcomes = 0 \<rparr>"

text \<open>\<^verbatim>\<open>ControlPanel\<close>: the simulate button is rendered with \<^verbatim>\<open>disabled={isSimulating}\<close>, and
  a disabled button dispatches no click; otherwise \<^verbatim>\<open>onSimulate\<close> starts a run.\<close>

definition ControlPanel_simulate :: "World \<Rightarrow> World" where
  "ControlPanel_simulate w =
     (if isSimulating (ui w) then w
      else (let (s, apiParams) = simulateMission_begin (ui w)
            in w\<lparr> ui := s,
                  pending := pending w @ [\<lparr> captured = parameters (ui w), request = apiParams \<rparr>],
                  requests := requests w + 1 \<rparr>))"

text \<open>The \<open>i\<close>-th suspended run receives its reply; there is nothing to do for an index
  with no run.\<close>

definition settle :: "nat \<Rightarrow> reply \<Rightarrow> World \<Rightarrow> World" where
  "settle i reply w =
     (if i < length (pending w)
      then (let (thrown, s) = simulateMission_resume (captured (pending w ! i)) reply (ui w)
            in w\<lparr> ui := s,
                  pending := take i (pending w) @ drop (Suc i) (pending w),
                  outcomes := outcomes w + 1 \<rparr>)
      else w)"

fun step :: "event \<Rightarrow> World \<Rightarrow> World" where
  "step ClickSimulate w = ControlPanel_simulate w"
| "step ClickReset w = w\<lparr>ui := resetMission (ui w)\<rparr>"
| "step (ChangeParameters p) w = w\<lparr>ui := (ui w)\<lparr>parameters := p\<rparr>\<rparr>"
| "step (Reply i reply) w = settle i reply w"

inductive reachable :: "World \<Rightarrow> bool" where
  init: "reachable World_init"
| step: "reachable w \<Longrightarrow> reachable (step e w)"

text \<open>The invariant of the lifecycle: at most one run is suspended, the running flag is
  set exactly while one is, and every posted request has either settled or is suspended.\<close>

definition lifecycle_inv :: "World \<Rightarrow> bool" where
  "lifecycle_inv w =
     (length (pending w) \<le> 1 \<and> isSimulating (ui w) = (pending w \<noteq> [])
      \<and> outcomes w + length (pending w) = requests w)"

subsection \<open>Numbers that may be \<^verbatim>\<open>NaN\<close>\<close>

text \<open>
  A JavaScript number in the scene code: an exact real, or \<^verbatim>\<open>NaN\<close>, which every
  arithmetic operation and every \<^verbatim>\<open>Math\<close> function used here propagates.
\<close>

datatype jsnum = NaN | Num real

instantiation jsnum :: "{plus, minus, times, inverse}"
begin

fun plus_jsnum :: "jsnum \<Rightarrow> jsnum \<Rightarrow> jsnum" where
  "plus_jsnum (Num a) (Num b) = Num (a + b)"
| "plus_jsnum _ _ = NaN"

fun minus_jsnum :: "jsnum \<Rightarrow> jsnum \<Rightarrow> jsnum" where
  "minus_jsnum (Num a) (Num b) = Num (a - b)"
| "minus_jsnum _ _ = NaN"

fun times_jsnum :: "jsnum \<Rightarrow> jsnum \<Rightarrow> jsnum" where
  "times_jsnum (Num a) (Num b) = Num (a * b)"
| "times_jsnum _ _ = NaN"

text \<open>Every divisor in the source is a non-zero constant.\<close>

fun divide_jsnum :: "jsnum \<Rightarrow> jsnum \<Rightarrow> jsnum" where
  "divide_jsnum (Num a) (Num b) = Num (a / b)"
| "divide_jsnum _ _ = NaN"

fun inverse_jsnum :: "jsnum \<Rightarrow> jsnum" where
  "inverse_jsnum (Num a) = Num (1 / a)"
| "inverse_jsnum NaN = NaN"

instance ..

end

fun Math_cos :: "jsnum \<Rightarrow> jsnum" where
  "Math_cos (Num a) = Num (cos a)"
| "Math_cos NaN = NaN"

fun Math_sin :: "jsnum \<Rightarrow> jsnum" where
  "Math_sin (Num a) = Num (sin a)"
| "Math_sin NaN = NaN"

fun Math_abs :: "jsnum \<Rightarrow> jsnum" where
  "Math_abs (Num a) = Num \<bar>a\<bar>"
| "Math_abs NaN = NaN"

fun Math_max :: "jsnum \<Rightarrow> jsnum \<Rightarrow> jsnum" where
  "Math_max (Num a) (Num b) = Num (max a b)"
| "Math_max _ _ = NaN"

text \<open>\<^verbatim>\<open>Math.pow\<close> at the literal exponents 2 and 3 of the source.\<close>

fun Math_pow :: "jsnum \<Rightarrow> nat \<Rightarrow> jsnum" where
  "Math_pow (Num a) n = Num (a ^ n)"
| "Math_pow NaN n = NaN"

definition Math_PI :: jsnum where
  "Math_PI = Num pi"

type_synonym position = "jsnum \<times> jsnum \<times> jsnum"

subsection \<open>The position model: \<^verbatim>\<open>getTimeBasedPositions\<close>\<close>

text \<open>The props of \<^verbatim>\<open>SpaceScene\<close>, which the closure \<^verbatim>\<open>getTimeBasedPositions\<close> can read.\<close>

record SpaceSceneProps =
  scene_missionResults :: UIMissionResults
  scene_isAnimating :: bool
  scene_propulsionType :: string
  scene_launchDate :: string

record Positions =
  earthPosition :: position
  atlasPosition :: position
  currentDistance :: jsnum
  timeFromPerihelion :: jsnum

text \<open>
  \<open>Date_getTime str\<close> stands for \<^verbatim>\<open>new Date(str).getTime()\<close> of the host: the
  milliseconds since the epoch, \<^verbatim>\<open>NaN\<close> for a string it cannot parse. It is a
  parameter, since a date-time string without a zone is read in the host's time zone.
\<close>

definition getTimeBasedPositions :: "(string \<Rightarrow> jsnum) \<Rightarrow> SpaceSceneProps \<Rightarrow> Positions" where
  "getTimeBasedPositions Date_getTime props =
     (let launch = Date_getTime (scene_launchDate props);
          optimalDate = Date_getTime ''2025-10-30'';
          daysDiff = (launch - optimalDate) / Num (1000 * 60 * 60 * 24);
          earthOrbitalPhase = (daysDiff / Num 365.25) * Num 2 * Math_PI;
          earthPosition = (Num (- 3) + Num 0.3 * Math_cos earthOrbitalPhase,
                           Num 0.3 * Math_sin earthOrbitalPhase,
                           Num 0);
          timeFromPerihelion = daysDiff / Num 365.25;
          perihelionDistance = Num 1.4;
          currentDistance = perihelionDistance + Math_abs timeFromPerihelion * Num 2.0;
          scaledDistance = currentDistance * Num 2;
          atlasPosition = (scaledDistance, Num 3 + timeFromPerihelion * Num 0.5, Num 0)
      in \<lparr> earthPosition = earthPosition, atlasPosition = atlasPosition,
           currentDistance = currentDistance, timeFromPerihelion = timeFromPerihelion \<rparr>)"

subsection \<open>The curve generator: \<^verbatim>\<open>getTrajectoryPoints\<close>\<close>

text \<open>The body of the \<^verbatim>\<open>for\<close> loop: the point at parameter \<open>t\<close>. Here
  \<^verbatim>\<open>propulsionType\<close> is any string, and the \<^verbatim>\<open>switch\<close> has a \<^verbatim>\<open>default\<close> case.\<close>

definition trajectoryPoint :: "position \<Rightarrow> position \<Rightarrow> string \<Rightarrow> jsnum \<Rightarrow> position" where
  "trajectoryPoint earthPos atlasPos propulsion t =
     (let (earthX, earthY, earthZ) = earthPos;
          (atlasX, atlasY, atlasZ) = atlasPos
      in if propulsion = ''chemical'' then
           (earthX + (atlasX - earthX) * t,
            earthY + (atlasY - earthY) * t + Math_sin (t * Math_PI) * Num 0.5,
            earthZ + (atlasZ - earthZ) * t)
         else if propulsion = ''ion'' then
           (let controlX = (earthX + atlasX) / Num 2;
                controlY = Math_max earthY atlasY + Num 1.5
            in (Math_pow (Num 1 - t) 2 * earthX + Num 2 * (Num 1 - t) * t * controlX
                  + Math_pow t 2 * atlasX,
                Math_pow (Num 1 - t) 2 * earthY + Num 2 * (Num 1 - t) * t * controlY
                  + Math_pow t 2 * atlasY,
                earthZ + (atlasZ - earthZ) * t))
         else if propulsion = ''solar-sail'' then
           (let sailControl1X = earthX + (atlasX - earthX) * Num 0.3;
                sailControl1Y = earthY + Num 3.0;
                sailControl2X = earthX + (atlasX - earthX) * Num 0.7;
                sailControl2Y = earthY + Num 2.0
            in (Math_pow (Num 1 - t) 3 * earthX
                  + Num 3 * Math_pow (Num 1 - t) 2 * t * sailControl1X
                  + Num 3 * (Num 1 - t) * Math_pow t 2 * sailControl2X
                  + Math_pow t 3 * atlasX,
                Math_pow (Num 1 - t) 3 * earthY
                  + Num 3 * Math_pow (Num 1 - t) 2 * t * sailControl1Y
                  + Num 3 * (Num 1 - t) * Math_pow t 2 * sailControl2Y
                  + Math_pow t 3 * atlasY,
                earthZ + (atlasZ - earthZ) * t))
         else
           (earthX + (atlasX - earthX) * t,
            earthY + (atlasY - earthY) * t,
            earthZ + (atlasZ - earthZ) * t))"

text \<open>The loop \<^verbatim>\<open>for (let i = 0; i <= segments; i++)\<close> with \<^verbatim>\<open>const segments = 50\<close>: one
  point is pushed for each \<open>i\<close> from 0 to \<open>segments\<close>, at \<open>t = i / segments\<close>.\<close>

definition getTrajectoryPoints :: "position \<Rightarrow> position \<Rightarrow> string \<Rightarrow> position list" where
  "getTrajectoryPoints earthPos atlasPos propulsion =
     (let segments = 50 :: nat
      in map (\<lambda>i. trajectoryPoint earthPos atlasPos propulsion (Num (real i) / Num (real segments)))
             [0 ..< segments + 1])"

subsection \<open>The fallback heuristic as the specification words it\<close>

text \<open>
  The closed form of the specification, written from its sentences and not from the code:
  a table of (deltaV-multiplier, time-multiplier, success-base) per propulsion variant, a
  payload adjustment that multiplies the two multipliers and is added to the
  success-base, base values 15 and 5, a clamp to \<open>[0.1, 0.95]\<close> and a propellant cost
  of \<open>0.8\<close> times the deltaV. The result is
  (deltaV, transitYears, successProbability, propellantCost).
\<close>

definition spec_propulsion_table :: "propulsion \<Rightarrow> real \<times> real \<times> real" where
  "spec_propulsion_table v =
     (case v of Chemical \<Rightarrow> (1.2, 0.8, 0.6) | Ion \<Rightarrow> (0.8, 1.2, 0.8) | SolarSail \<Rightarrow> (0.3, 2.0, 0.5))"

definition spec_payload_adjustment :: "payload \<Rightarrow> real \<times> real \<times> real" where
  "spec_payload_adjustment c =
     (case c of Small \<Rightarrow> (0.9, 0.9, 0.1) | Medium \<Rightarrow> (1.0, 1.0, 0.0) | Large \<Rightarrow> (1.3, 1.3, - 0.1))"

definition spec_clamp :: "real \<Rightarrow> real \<Rightarrow> real \<Rightarrow> real" where
  "spec_clamp x lo hi = (if x < lo then lo else if hi < x then hi else x)"

definition spec_fallback :: "UIMissionParameters \<Rightarrow> real \<times> real \<times> real \<times> real" where
  "spec_fallback p =
     (let (dv_mult, time_mult, success_base) = spec_propulsion_table (propulsionType p);
          (dv_factor, time_factor, success_shift) = spec_payload_adjustment (payloadSize p);
          dv = 15 * (dv_mult * dv_factor);
          transitYears = 5 * (time_mult * time_factor);
          success = spec_clamp (success_base + success_shift) 0.1 0.95;
          propellantCost = dv * 0.8
      in (dv, transitYears, success, propellantCost))"

text \<open>The ranges of the data model, read on a response of the remote service.\<close>

definition responseInRange :: "MissionResults \<Rightarrow> bool" where
  "responseInRange r =
     (0 \<le> success_probability r \<and> success_probability r \<le> 1 \<and> 0 \<le> delta_v r
      \<and> 0 \<le> travel_time r \<and> 0 \<le> fuel_cost r)"

section \<open>Properties\<close>

subsection \<open>Evaluating \<^verbatim>\<open>simulateMission\<close> and the fallback\<close>

lemmas simulateMission_defs = simulateMission_def simulateMission_begin_def
  simulateMission_resume_def simulateMission_try_def simulateMission_catch_def

lemma simulateMission_rejected:
  "simulateMission (Inl e) s =
     (None, s\<lparr>isSimulating := False, isAnimating := True,
          apiError := Some ''Failed to connect to simulation API. Using offline mode...'',
          results := fallbackResults (parameters s)\<rparr>)"
  by (simp add: simulateMission_defs)

lemma simulateMission_fulfilled:
  "simulateMission (Inr r) s =
     (None, s\<lparr>isSimulating := False, isAnimating := True, apiError := None,
          results := \<lparr> travelTime = travel_time r, deltaV = delta_v r,
                       successProbability = success_probability r, missionLog = mission_log r,
                       fuelCost = fuel_cost r, missionStatus = mission_status r \<rparr>\<rparr>)"
  by (simp add: simulateMission_defs)

lemma fallback_numbers:
  "deltaV (fallbackResults p) = 15 * fst (fallbackMultipliers p)"
  "travelTime (fallbackResults p) = 5 * fst (snd (fallbackMultipliers p))"
  "successProbability (fallbackResults p) = max 0.1 (min 0.95 (snd (snd (fallbackMultipliers p))))"
  "fuelCost (fallbackResults p) = 15 * fst (fallbackMultipliers p) * 0.8"
  by (simp_all add: fallbackResults_def Let_def split: prod.splits)

lemma fallback_status:
  "missionStatus (fallbackResults p) =
     (if successProbability (fallbackResults p) > 0.7 then ''success'' else ''warning'')"
  by (cases "fallbackMultipliers p") (auto simp: fallbackResults_def Let_def)

text \<open>The nine outcomes of the two switches.\<close>

lemma fallbackMultipliers_table:
  "fallbackMultipliers \<lparr>launchDate = d, propulsionType = Chemical, payloadSize = Small\<rparr> = (1.08, 0.72, 0.7)"
  "fallbackMultipliers \<lparr>launchDate = d, propulsionType = Chemical, payloadSize = Medium\<rparr> = (1.2, 0.8, 0.6)"
  "fallbackMultipliers \<lparr>launchDate = d, propulsionType = Chemical, payloadSize = Large\<rparr> = (1.56, 1.04, 0.5)"
  "fallbackMultipliers \<lparr>launchDate = d, propulsionType = Ion, payloadSize = Small\<rparr> = (0.72, 1.08, 0.9)"
  "fallbackMultipliers \<lparr>launchDate = d, propulsionType = Ion, payloadSize = Medium\<rparr> = (0.8, 1.2, 0.8)"
  "fallbackMultipliers \<lparr>launchDate = d, propulsionType = Ion, payloadSize = Large\<rparr> = (1.04, 1.56, 0.7)"
  "fallbackMultipliers \<lparr>launchDate = d, propulsionType = SolarSail, payloadSize = Small\<rparr> = (0.27, 1.8, 0.6)"
  "fallbackMultipliers \<lparr>launchDate = d, propulsionType = SolarSail, payloadSize = Medium\<rparr> = (0.3, 2.0, 0.5)"
  "fallbackMultipliers \<lparr>launchDate = d, propulsionType = SolarSail, payloadSize = Large\<rparr> = (0.39, 2.6, 0.4)"
  by (simp_all add: fallbackMultipliers_def)

lemma parameters_cases:
  obtains d v c where "p = \<lparr>launchDate = d, propulsionType = v, payloadSize = c\<rparr>"
  by (cases p) simp

lemma spec_fallback_table:
  "spec_fallback p =
     (15 * fst (fallbackMultipliers p), 5 * fst (snd (fallbackMultipliers p)),
      max 0.1 (min 0.95 (snd (snd (fallbackMultipliers p)))), 15 * fst (fallbackMultipliers p) * 0.8)"
proof -
  obtain d v c where p: "p = \<lparr>launchDate = d, propulsionType = v, payloadSize = c\<rparr>"
    by (rule parameters_cases)
  show ?thesis unfolding p
    by (cases v; cases c)
       (simp_all add: fallbackMultipliers_table spec_fallback_def spec_propulsion_table_def
          spec_payload_adjustment_def spec_clamp_def)
qed

subsection \<open>The fallback outcome\<close>

text \<open>
  Claim C1. Whatever the parameters and whatever the failure of the remote call, the
  outcome that \<^verbatim>\<open>simulateMission\<close> stores is the closed form of the specification:
  deltaV, transit years, success probability and propellant cost agree with
  \<open>spec_fallback\<close>. In particular ion with a medium payload gives
  (12.0, 6.0, 0.8, 9.6, "success") and solar sail with a large payload gives
  (5.85, 13.0, 0.4, "warning"). The numbers are exact reals.
\<close>

theorem fallback_closed_form:
  "(let r = results (snd (simulateMission (Inl e) s))
    in (deltaV r, travelTime r, successProbability r, fuelCost r)) = spec_fallback (parameters s)
   \<and> (let r = results (snd (simulateMission (Inl e)
                (s\<lparr>parameters := \<lparr>launchDate = d, propulsionType = Ion, payloadSize = Medium\<rparr>\<rparr>)))
      in (deltaV r, travelTime r, successProbability r, fuelCost r, missionStatus r))
     = (12.0, 6.0, 0.8, 9.6, ''success'')
   \<and> (let r = results (snd (simulateMission (Inl e)
                (s\<lparr>parameters := \<lparr>launchDate = d, propulsionType = SolarSail, payloadSize = Large\<rparr>\<rparr>)))
      in (deltaV r, travelTime r, successProbability r, missionStatus r))
     = (5.85, 13.0, 0.4, ''warning'')"
  by (simp add: simulateMission_rejected fallback_numbers fallback_status spec_fallback_table
        fallbackMultipliers_table)

text \<open>
  Claim C6. The status of a fallback outcome is "success" exactly when its success
  probability is strictly greater than 0.7, and "warning" exactly when it is not.
\<close>

theorem fallback_status_iff:
  "(missionStatus (results (snd (simulateMission (Inl e) s))) = ''success'')
     = (successProbability (results (snd (simulateMission (Inl e) s))) > 0.7)
   \<and> (missionStatus (results (snd (simulateMission (Inl e) s))) = ''warning'')
     = (\<not> successProbability (results (snd (simulateMission (Inl e) s))) > 0.7)"
  by (simp add: simulateMission_rejected fallback_status)

text \<open>
  Claim C9. After both switches the success-base lies in \<open>[0.4, 0.9]\<close>, so the clamp to
  \<open>[0.1, 0.95]\<close> leaves it as it is: the fallback success probability is the unclamped
  success-base, and it is never one of the two clamp bounds.
\<close>

theorem fallback_clamp_inactive:
  "(case fallbackMultipliers p of (deltaVMultiplier, timeMultiplier, successBase) \<Rightarrow>
      0.4 \<le> successBase \<and> successBase \<le> 0.9
      \<and> max 0.1 (min 0.95 successBase) = successBase
      \<and> successProbability (fallbackResults p) = successBase
      \<and> successProbability (fallbackResults p) \<noteq> 0.1
      \<and> successProbability (fallbackResults p) \<noteq> 0.95)"
proof -
  obtain d v c where p: "p = \<lparr>launchDate = d, propulsionType = v, payloadSize = c\<rparr>"
    by (rule parameters_cases)
  show ?thesis unfolding p
    by (cases v; cases c) (simp_all add: fallback_numbers fallbackMultipliers_table)
qed

subsection \<open>Reset\<close>

text \<open>
  Claim C10. \<^verbatim>\<open>resetMission\<close> puts the pending default in place of the outcome (all
  metrics zero, empty log, status "pending": the outcome of the initial state), clears the
  animation flag and the degraded-mode message, and leaves the selected parameters (and
  the running flag) as they were.
\<close>

theorem reset_frame:
  "results (resetMission s) = \<lparr> travelTime = 0, deltaV = 0, successProbability = 0, missionLog = [],
                              fuelCost = 0, missionStatus = ''pending'' \<rparr>
   \<and> results (resetMission s) = results App_init
   \<and> isAnimating (resetMission s) = False
   \<and> apiError (resetMission s) = None
   \<and> parameters (resetMission s) = parameters s
   \<and> isSimulating (resetMission s) = isSimulating s"
  by (simp add: resetMission_def App_init_def)

subsection \<open>Failure of the remote call\<close>

lemma simulateMission_resume_absorbs: "fst (simulateMission_resume p reply s) = None"
  by (cases reply) (simp_all add: simulateMission_defs)

lemma fallback_in_range: "outcomeInRange (fallbackResults p)"
proof -
  obtain d v c where p: "p = \<lparr>launchDate = d, propulsionType = v, payloadSize = c\<rparr>"
    by (rule parameters_cases)
  show ?thesis unfolding p outcomeInRange_def
    by (cases v; cases c) (simp_all add: fallback_numbers fallbackMultipliers_table)
qed

text \<open>
  Claim C3. No exception leaves \<^verbatim>\<open>simulateMission\<close>: whatever the reply and whatever the
  closure captured, nothing is pending after the \<^verbatim>\<open>finally\<close> block. When the remote call
  fails, in any way, the stored outcome is the fallback outcome of the parameters, it is
  within the ranges of the data model with status "success" or "warning", and the
  degraded-mode message \<^verbatim>\<open>apiError\<close>, a state cell of its own, is set. When the remote
  call succeeds, \<^verbatim>\<open>apiError\<close> is not set.
\<close>

theorem failure_resolves_to_fallback:
  "fst (simulateMission_resume p reply s) = None
   \<and> fst (simulateMission (Inl e) s) = None
   \<and> results (snd (simulateMission (Inl e) s)) = fallbackResults (parameters s)
   \<and> outcomeInRange (fallbackResults (parameters s))
   \<and> missionStatus (fallbackResults (parameters s)) \<in> {''success'', ''warning''}
   \<and> apiError (snd (simulateMission (Inl e) s))
       = Some ''Failed to connect to simulation API. Using offline mode...''
   \<and> fst (simulateMission (Inr r) s) = None
   \<and> apiError (snd (simulateMission (Inr r) s)) = None"
  by (simp add: simulateMission_resume_absorbs simulateMission_rejected simulateMission_fulfilled
        fallback_in_range fallback_status)

subsection \<open>Ranges of the stored outcome\<close>

text \<open>
  Claim C4, as stated, fails on the remote path: a response with \<^verbatim>\<open>delta_v = -1\<close> and
  \<^verbatim>\<open>success_probability = 2\<close> is stored as it is, and the stored outcome is out of range.
\<close>

theorem remote_outcome_out_of_range:
  "\<not> outcomeInRange (results (snd (simulateMission
        (Inr \<lparr> travel_time = 1, delta_v = - 1, success_probability = 2, mission_log = [],
               fuel_cost = 1, mission_status = ''success'' \<rparr>) App_init)))"
  by (simp add: simulateMission_fulfilled outcomeInRange_def)

text \<open>
  Claim C4, amended. A run that settles by the fallback stores an outcome with success
  probability in \<open>[0, 1]\<close> and non-negative deltaV, transit years and propellant cost. A
  run that settles from the remote response stores the response field for field, so its
  outcome is in range exactly when the response is.
\<close>

theorem settled_outcome_ranges:
  "outcomeInRange (results (snd (simulateMission (Inl e) s)))
   \<and> results (snd (simulateMission (Inr r) s))
       = \<lparr> travelTime = travel_time r, deltaV = delta_v r,
           successProbability = success_probability r, missionLog = mission_log r,
           fuelCost = fuel_cost r, missionStatus = mission_status r \<rparr>
   \<and> outcomeInRange (results (snd (simulateMission (Inr r) s))) = responseInRange r"
proof -
  have "outcomeInRange (results (snd (simulateMission (Inl e) s)))"
    by (simp add: simulateMission_rejected fallback_in_range)
  moreover have "outcomeInRange (results (snd (simulateMission (Inr r) s))) = responseInRange r"
    by (simp add: simulateMission_fulfilled outcomeInRange_def responseInRange_def)
  ultimately show ?thesis
    by (simp add: simulateMission_fulfilled)
qed

subsection \<open>The launch epoch is not validated\<close>

text \<open>
  Claim C8, as stated, fails: with the empty string as launch date (what a cleared
  \<^verbatim>\<open>datetime-local\<close> input holds, and which no \<^verbatim>\<open>Date\<close> parses) a click on simulate
  posts the request with that launch date and reports no error.
\<close>

theorem unparseable_epoch_is_delegated:
  "(let w = step ClickSimulate
              (step (ChangeParameters \<lparr>launchDate = '''', propulsionType = Ion, payloadSize = Medium\<rparr>)
                 World_init)
    in requests w = 1
       \<and> map request (pending w) = [\<lparr>launch_date = '''', propulsion_type = Ion, payload_size = Medium\<rparr>]
       \<and> apiError (ui w) = None)"
  by (simp add: World_init_def App_init_def ControlPanel_simulate_def simulateMission_begin_def)

lemma fallback_ignores_launchDate: "fallbackResults (p\<lparr>launchDate := d\<rparr>) = fallbackResults p"
  by (simp add: fallbackResults_def fallbackMultipliers_def)

text \<open>
  Claim C8, amended. The estimator does not validate the launch epoch. For every launch
  date string, parseable or not, the request carries it as it is and no error is reported
  before the request is posted; a click on simulate in a state that is not running posts
  one request; no exception leaves \<^verbatim>\<open>simulateMission\<close>; and when the remote call fails the
  stored outcome is the fallback outcome of the parameters, the same outcome whatever the
  launch date is.
\<close>

theorem launchEpoch_not_validated:
  "snd (simulateMission_begin s)
     = \<lparr> launch_date = launchDate (parameters s), propulsion_type = propulsionType (parameters s),
         payload_size = payloadSize (parameters s) \<rparr>
   \<and> apiError (fst (simulateMission_begin s)) = None
   \<and> requests (step ClickSimulate (w\<lparr>ui := (ui w)\<lparr>isSimulating := False\<rparr>\<rparr>)) = requests w + 1
   \<and> fst (simulateMission reply s) = None
   \<and> results (snd (simulateMission (Inl e) s)) = fallbackResults (parameters s)
   \<and> results (snd (simulateMission (Inl e) (s\<lparr>parameters := (parameters s)\<lparr>launchDate := d\<rparr>\<rparr>)))
       = results (snd (simulateMission (Inl e) s))"
proof -
  have req: "snd (simulateMission_begin s)
     = \<lparr> launch_date = launchDate (parameters s), propulsion_type = propulsionType (parameters s),
         payload_size = payloadSize (parameters s) \<rparr>"
    and quiet: "apiError (fst (simulateMission_begin s)) = None"
    by (simp_all add: simulateMission_begin_def)
  have post: "requests (step ClickSimulate (w\<lparr>ui := (ui w)\<lparr>isSimulating := False\<rparr>\<rparr>)) = requests w + 1"
    by (simp add: ControlPanel_simulate_def split: prod.splits)
  have none: "fst (simulateMission reply s) = None"
    by (simp add: simulateMission_def simulateMission_resume_absorbs split: prod.splits)
  have fb: "results (snd (simulateMission (Inl e) s)) = fallbackResults (parameters s)"
    by (simp add: simulateMission_rejected)
  have indep: "results (snd (simulateMission (Inl e) (s\<lparr>parameters := (parameters s)\<lparr>launchDate := d\<rparr>\<rparr>)))
       = results (snd (simulateMission (Inl e) s))"
    by (simp add: simulateMission_rejected fallback_ignores_launchDate)
  from req quiet post none fb indep show ?thesis by (intro conjI)
qed

subsection \<open>At most one run in flight\<close>

lemma resume_isSimulating: "isSimulating (snd (simulateMission_resume p reply s)) = False"
  by (cases reply) (simp_all add: simulateMission_defs)

lemma begin_isSimulating: "isSimulating (fst (simulateMission_begin s)) = True"
  by (simp add: simulateMission_begin_def)

lemma lifecycle_inv_init: "lifecycle_inv World_init"
  by (simp add: lifecycle_inv_def World_init_def App_init_def)

lemma lifecycle_inv_step: "lifecycle_inv w \<Longrightarrow> lifecycle_inv (step e w)"
proof (cases e)
  case ClickSimulate
  assume "lifecycle_inv w"
  then show ?thesis using ClickSimulate begin_isSimulating [of "ui w"]
    by (auto simp: lifecycle_inv_def ControlPanel_simulate_def split: prod.splits)
next
  case ClickReset
  assume "lifecycle_inv w"
  then show ?thesis using ClickReset
    by (simp add: lifecycle_inv_def resetMission_def)
next
  case (ChangeParameters p)
  assume "lifecycle_inv w"
  then show ?thesis using ChangeParameters
    by (simp add: lifecycle_inv_def)
next
  case (Reply i reply)
  assume inv: "lifecycle_inv w"
  show ?thesis
  proof (cases "i < length (pending w)")
    case True
    with inv have i: "i = 0" and len: "length (pending w) = 1"
      by (auto simp: lifecycle_inv_def)
    from inv len show ?thesis
      using Reply i resume_isSimulating [of "captured (pending w ! 0)" reply "ui w"]
      by (auto simp: lifecycle_inv_def settle_def split: prod.splits)
  next
    case False
    with inv Reply show ?thesis by (simp add: settle_def)
  qed
qed

lemma reachable_lifecycle_inv: "reachable w \<Longrightarrow> lifecycle_inv w"
  by (induction rule: reachable.induct) (simp_all add: lifecycle_inv_init lifecycle_inv_step)

lemma settle_only_run:
  "length (pending w) = 1 \<Longrightarrow>
     settle 0 reply w =
       w\<lparr> ui := snd (simulateMission_resume (captured (pending w ! 0)) reply (ui w)),
           pending := [], outcomes := outcomes w + 1 \<rparr>"
  by (simp add: settle_def case_prod_beta)

text \<open>
  Claim C5. In every state the application can reach, at most one run is in flight, and
  every request posted so far has produced one outcome or is that run. While the state is
  running, exactly one run is in flight, a click on simulate changes nothing (the button
  is disabled), and whatever reply that run receives produces exactly one outcome, after
  which no run is in flight and the state is no longer running.
\<close>

theorem single_flight:
  "reachable w \<Longrightarrow>
     length (pending w) \<le> 1
     \<and> outcomes w + length (pending w) = requests w
     \<and> (isSimulating (ui w) \<longrightarrow>
          length (pending w) = 1
          \<and> step ClickSimulate w = w
          \<and> (\<forall>reply. outcomes (step (Reply 0 reply) w) = outcomes w + 1
                     \<and> pending (step (Reply 0 reply) w) = []
                     \<and> \<not> isSimulating (ui (step (Reply 0 reply) w))))"
proof -
  assume "reachable w"
  then have inv: "lifecycle_inv w" by (rule reachable_lifecycle_inv)
  then have bound: "length (pending w) \<le> 1"
    and count: "outcomes w + length (pending w) = requests w"
    and flag: "isSimulating (ui w) = (pending w \<noteq> [])"
    by (simp_all add: lifecycle_inv_def)
  have running: "length (pending w) = 1 \<and> step ClickSimulate w = w
      \<and> (\<forall>reply. outcomes (step (Reply 0 reply) w) = outcomes w + 1
                 \<and> pending (step (Reply 0 reply) w) = []
                 \<and> \<not> isSimulating (ui (step (Reply 0 reply) w)))"
    if sim: "isSimulating (ui w)"
  proof -
    from sim flag bound have one: "length (pending w) = 1"
      by (cases "pending w") simp_all
    from sim have noop: "step ClickSimulate w = w"
      by (simp add: ControlPanel_simulate_def)
    from one noop show ?thesis
      by (simp add: settle_only_run resume_isSimulating)
  qed
  from bound count running show ?thesis by blast
qed

text \<open>Claim C5, at the state reached by one click on simulate from the initial state: it
  is running, a second click changes nothing, and a timeout of the one run in flight
  produces the only outcome.\<close>

theorem single_flight_witness:
  "reachable (step ClickSimulate World_init)
   \<and> isSimulating (ui (step ClickSimulate World_init))
   \<and> length (pending (step ClickSimulate World_init)) = 1
   \<and> requests (step ClickSimulate World_init) = 1
   \<and> outcomes (step ClickSimulate World_init) = 0
   \<and> step ClickSimulate (step ClickSimulate World_init) = step ClickSimulate World_init
   \<and> outcomes (step (Reply 0 (Inl Timeout)) (step ClickSimulate World_init)) = 1
   \<and> pending (step (Reply 0 (Inl Timeout)) (step ClickSimulate World_init)) = []"
proof -
  have r: "reachable (step ClickSimulate World_init)"
    by (rule reachable.step) (rule reachable.init)
  have s: "isSimulating (ui (step ClickSimulate World_init))"
    by (simp add: World_init_def App_init_def ControlPanel_simulate_def simulateMission_begin_def)
  have q: "requests (step ClickSimulate World_init) = 1"
    by (simp add: World_init_def App_init_def ControlPanel_simulate_def simulateMission_begin_def)
  from single_flight [OF r] r s q show ?thesis by auto
qed

subsection \<open>The position model\<close>

text \<open>
  The positions in closed form. With \<open>t\<close> the offset of the launch date from the
  reference date in years, the Earth is on the circle of radius \<open>0.3\<close> around
  \<open>(-3, 0, 0)\<close> at phase \<open>2 \<pi> t\<close> and the object is at distance \<open>1.4 + 2 |t|\<close>, scaled by 2,
  at height \<open>3 + t / 2\<close>. A launch date that the host cannot parse gives \<^verbatim>\<open>NaN\<close> in the
  first two coordinates of both.
\<close>

lemma positions_closed_form:
  assumes "Date_getTime (scene_launchDate props) = Num a" and "Date_getTime ''2025-10-30'' = Num b"
  shows "getTimeBasedPositions Date_getTime props =
     (let t = (a - b) / 86400000 / 365.25
      in \<lparr> earthPosition = (Num (- 3 + 0.3 * cos (t * 2 * pi)), Num (0.3 * sin (t * 2 * pi)), Num 0),
           atlasPosition = (Num ((1.4 + \<bar>t\<bar> * 2) * 2), Num (3 + t * 0.5), Num 0),
           currentDistance = Num (1.4 + \<bar>t\<bar> * 2),
           timeFromPerihelion = Num t \<rparr>)"
  using assms by (simp add: getTimeBasedPositions_def Math_PI_def Let_def)

lemma positions_invalid_date:
  assumes "Date_getTime (scene_launchDate props) = NaN"
  shows "earthPosition (getTimeBasedPositions Date_getTime props) = (NaN, NaN, Num 0)"
    and "atlasPosition (getTimeBasedPositions Date_getTime props) = (NaN, NaN, Num 0)"
  using assms by (simp_all add: getTimeBasedPositions_def Math_PI_def Let_def)

text \<open>For a launch date that parses, the Earth is at \<open>x \<le> -2.7\<close> and the object at
  \<open>x \<ge> 2.8\<close>: the curve generator is never given an origin that is its own target.\<close>

lemma circle_left_of_distance:
  "(c::real) \<le> 1 \<Longrightarrow> 0 \<le> u \<Longrightarrow> - 3 + 0.3 * c < (1.4 + u * 2) * 2"
  by (simp add: field_simps)

lemma positions_apart:
  assumes "Date_getTime (scene_launchDate props) = Num a" and "Date_getTime ''2025-10-30'' = Num b"
  shows "earthPosition (getTimeBasedPositions Date_getTime props)
           \<noteq> atlasPosition (getTimeBasedPositions Date_getTime props)"
proof -
  define t where "t = (a - b) / 86400000 / 365.25"
  have "- 3 + 0.3 * cos (t * 2 * pi) < (1.4 + \<bar>t\<bar> * 2) * 2"
    by (rule circle_left_of_distance) simp_all
  then show ?thesis
    unfolding positions_closed_form [OF assms] t_def [symmetric] by (simp add: Let_def)
qed

subsection \<open>The trajectory curve\<close>

lemma trajectoryPoint_start:
  "trajectoryPoint (Num ex, Num ey, Num ez) (Num ax, Num ay, Num az) v (Num 0)
     = (Num ex, Num ey, Num ez)"
  by (simp add: trajectoryPoint_def Math_PI_def)

lemma trajectoryPoint_end:
  "trajectoryPoint (Num ex, Num ey, Num ez) (Num ax, Num ay, Num az) v (Num 1)
     = (Num ax, Num ay, Num az)"
  by (simp add: trajectoryPoint_def Math_PI_def)

lemma trajectoryPoint_default_degenerate:
  "v \<noteq> ''chemical'' \<Longrightarrow> v \<noteq> ''ion'' \<Longrightarrow> v \<noteq> ''solar-sail'' \<Longrightarrow>
     trajectoryPoint (Num x, Num y, Num z) (Num x, Num y, Num z) v (Num t) = (Num x, Num y, Num z)"
  by (simp add: trajectoryPoint_def)

lemma getTrajectoryPoints_length: "length (getTrajectoryPoints a b v) = 51"
  by (simp add: getTrajectoryPoints_def)

lemma getTrajectoryPoints_nth:
  "i \<le> 50 \<Longrightarrow> getTrajectoryPoints a b v ! i = trajectoryPoint a b v (Num (real i) / Num 50)"
  by (simp add: getTrajectoryPoints_def Let_def del: upt_Suc)

lemma getTrajectoryPoints_middle:
  "getTrajectoryPoints a b v ! 25 = trajectoryPoint a b v (Num (1 / 2))"
  by (simp add: getTrajectoryPoints_nth)

text \<open>With the origin as its own target, the point in the middle of each of the three
  named curves is above the origin: by the sinusoidal bump, and by the raised control
  points of the two Bezier curves.\<close>

lemma trajectoryPoint_degenerate_middle:
  "trajectoryPoint (Num x, Num y, Num z) (Num x, Num y, Num z) ''chemical'' (Num (1 / 2))
     = (Num x, Num (y + 1 / 2), Num z)"
  "trajectoryPoint (Num x, Num y, Num z) (Num x, Num y, Num z) ''ion'' (Num (1 / 2))
     = (Num x, Num (y + 3 / 4), Num z)"
  "trajectoryPoint (Num x, Num y, Num z) (Num x, Num y, Num z) ''solar-sail'' (Num (1 / 2))
     = (Num x, Num (y + 15 / 8), Num z)"
  by (simp_all add: trajectoryPoint_def Math_PI_def power2_eq_square power3_eq_cube field_simps)

lemma degenerate_constant_iff:
  "(set (getTrajectoryPoints (Num x, Num y, Num z) (Num x, Num y, Num z) v) = {(Num x, Num y, Num z)})
     = (v \<notin> {''chemical'', ''ion'', ''solar-sail''})"
proof
  let ?o = "(Num x, Num y, Num z)"
  assume all: "set (getTrajectoryPoints ?o ?o v) = {?o}"
  have "getTrajectoryPoints ?o ?o v ! 25 \<in> set (getTrajectoryPoints ?o ?o v)"
    by (rule nth_mem) (simp add: getTrajectoryPoints_length)
  with all have mid: "trajectoryPoint ?o ?o v (Num (1 / 2)) = ?o"
    by (simp add: getTrajectoryPoints_middle)
  show "v \<notin> {''chemical'', ''ion'', ''solar-sail''}"
  proof
    assume "v \<in> {''chemical'', ''ion'', ''solar-sail''}"
    then consider "v = ''chemical''" | "v = ''ion''" | "v = ''solar-sail''" by auto
    then show False using mid
      by cases (simp_all add: trajectoryPoint_degenerate_middle)
  qed
next
  assume "v \<notin> {''chemical'', ''ion'', ''solar-sail''}"
  then show "set (getTrajectoryPoints (Num x, Num y, Num z) (Num x, Num y, Num z) v) = {(Num x, Num y, Num z)}"
    by (simp add: getTrajectoryPoints_def trajectoryPoint_default_degenerate image_constant_conv
          del: upt_Suc)
qed

text \<open>
  Claim C2, as stated, fails twice at the origin \<open>(0, 0, 0)\<close> taken as its own target with
  chemical propulsion: the generator has no segment count to vary and returns 51 points,
  not the 2 points of one segment, and the points are not repetitions of the origin: the
  one in the middle is \<open>(0, 0.5, 0)\<close>, lifted by the sinusoidal bump.
\<close>

theorem degenerate_chemical_curve_not_constant:
  "(let origin = (Num 0, Num 0, Num 0);
        points = getTrajectoryPoints origin origin ''chemical''
    in length points = 51 \<and> length points \<noteq> 1 + 1
       \<and> points ! 25 = (Num 0, Num 0.5, Num 0) \<and> points ! 25 \<noteq> origin)"
  by (simp add: getTrajectoryPoints_length getTrajectoryPoints_nth trajectoryPoint_def Math_PI_def)

text \<open>
  Claim C2, amended. For every origin and target with real coordinates and every
  propulsion string, recognised or not, the generator, whose segment count is the
  constant 50, returns exactly 51 points, the first equal to the origin and the last
  equal to the target (exactly, in real arithmetic). With the origin as its own target
  the sequence is still 51 points from the origin to the origin; its points are all the
  origin exactly when the propulsion string is not one of the three recognised ones, and
  the chemical, ion and solar-sail curves arc away from it: their middle points lie
  0.5, 0.75 and 1.875 above the origin.
\<close>

theorem trajectory_endpoints:
  "(let origin = (Num ex, Num ey, Num ez); target = (Num ax, Num ay, Num az);
        points = getTrajectoryPoints origin target v
    in length points = 51 \<and> points ! 0 = origin \<and> points ! 50 = target
       \<and> hd points = origin \<and> last points = target)
   \<and> (let origin = (Num ex, Num ey, Num ez)
      in (set (getTrajectoryPoints origin origin v) = {origin})
           = (v \<notin> {''chemical'', ''ion'', ''solar-sail''})
         \<and> getTrajectoryPoints origin origin ''chemical'' ! 25 = (Num ex, Num (ey + 1 / 2), Num ez)
         \<and> getTrajectoryPoints origin origin ''ion'' ! 25 = (Num ex, Num (ey + 3 / 4), Num ez)
         \<and> getTrajectoryPoints origin origin ''solar-sail'' ! 25
             = (Num ex, Num (ey + 15 / 8), Num ez))"
proof -
  let ?o = "(Num ex, Num ey, Num ez)" and ?t = "(Num ax, Num ay, Num az)"
  let ?ps = "getTrajectoryPoints ?o ?t v"
  have len: "length ?ps = 51" by (rule getTrajectoryPoints_length)
  have first: "?ps ! 0 = ?o"
    by (simp add: getTrajectoryPoints_nth trajectoryPoint_start)
  have final: "?ps ! 50 = ?t"
    by (simp add: getTrajectoryPoints_nth trajectoryPoint_end)
  from len have ne: "?ps \<noteq> []" by auto
  have h: "hd ?ps = ?o" using first ne by (simp add: hd_conv_nth)
  have l: "last ?ps = ?t" using final ne len by (simp add: last_conv_nth)
  have deg: "(set (getTrajectoryPoints ?o ?o v) = {?o}) = (v \<notin> {''chemical'', ''ion'', ''solar-sail''})"
    by (rule degenerate_constant_iff)
  have mid: "getTrajectoryPoints ?o ?o ''chemical'' ! 25 = (Num ex, Num (ey + 1 / 2), Num ez)"
    "getTrajectoryPoints ?o ?o ''ion'' ! 25 = (Num ex, Num (ey + 3 / 4), Num ez)"
    "getTrajectoryPoints ?o ?o ''solar-sail'' ! 25 = (Num ex, Num (ey + 15 / 8), Num ez)"
    by (simp_all only: getTrajectoryPoints_middle trajectoryPoint_degenerate_middle)
  from len first final h l deg mid show ?thesis
    unfolding Let_def by (intro conjI)
qed

end
